theory Spec2Isabelle
  imports Main "HOL-Library.AList"
begin

section \<open>JavaScript values and effects\<close>

text \<open>
  A value of TypeScript type \<open>T | null | undefined\<close>, as the fields of the cloud SDK's
  records are declared. A value of type \<open>T | undefined\<close> is an \<open>option\<close>.
\<close>

datatype 'a nullable = Undefined | Null | Val 'a

text \<open>What a template literal \<^verbatim>\<open>`${x}`\<close> renders for a string-or-nullish value.\<close>

fun template :: "string nullable \<Rightarrow> string" where
  "template Undefined = ''undefined''"
| "template Null = ''null''"
| "template (Val s) = s"

text \<open>The operator \<^verbatim>\<open>!x\<close> on a string-or-nullish value: true on undefined, null and \<^verbatim>\<open>""\<close>.\<close>

fun falsy :: "string nullable \<Rightarrow> bool" where
  "falsy Undefined = True"
| "falsy Null = True"
| "falsy (Val s) = (s = [])"

text \<open>The expression \<^verbatim>\<open>x || d\<close> on a string-or-nullish \<open>x\<close> and a string \<open>d\<close>.\<close>

fun or_else :: "string nullable \<Rightarrow> string \<Rightarrow> string" where
  "or_else (Val s) d = (if s = [] then d else s)"
| "or_else Undefined d = d"
| "or_else Null d = d"

text \<open>
  \<^verbatim>\<open>Array.prototype.join\<close>: undefined and null elements are rendered as the empty string.
\<close>

fun join_elem :: "string nullable \<Rightarrow> string" where
  "join_elem (Val s) = s"
| "join_elem Undefined = []"
| "join_elem Null = []"

fun join :: "string nullable list \<Rightarrow> string \<Rightarrow> string" where
  "join [] sep = []"
| "join [x] sep = join_elem x"
| "join (x # y # ys) sep = join_elem x @ sep @ join (y # ys) sep"

text \<open>
  An object literal with computed keys: the properties are defined in source order, a
  repeated key overwrites the earlier value and keeps its place.
\<close>

definition object_literal :: "(string \<times> 'v) list \<Rightarrow> (string \<times> 'v) list" where
  "object_literal props = fold (\<lambda>(k, v). AList.update k v) props []"

text \<open>
  Thrown values. \<open>TypeError\<close> is what reading a property of null or undefined throws;
  \<open>Error m\<close> is \<^verbatim>\<open>new Error(m)\<close>. The cloud client and the sink may reject with any of them.
\<close>

datatype error = Error string | TypeError

section \<open>Data model\<close>

record IMasterAuth =
  clusterCaCertificate :: "string nullable"

record ICluster =
  name :: "string nullable"
  selfLink :: "string nullable"
  location :: "string nullable"
  endpoint :: "string nullable"
  masterAuth :: "IMasterAuth nullable"

text \<open>
  The entity's \<open>name\<close> holds the value of \<^verbatim>\<open>cluster.name\<close> as the object literal stores
  it; the guard of \<open>clusterToResource\<close> has narrowed it to a non-empty string.
\<close>

record EntityMeta =
  annotations :: "(string \<times> string) list"
  name :: "string nullable"
  namespace :: string

record EntitySpec =
  type :: string
  owner :: string

record Entity =
  apiVersion :: string
  kind :: string
  metadata :: EntityMeta
  spec :: EntitySpec

record DeferredEntity =
  locationKey :: string
  entity :: Entity

record EntityProviderMutation =
  type :: string
  entities :: "DeferredEntity list"

record ListClustersRequest =
  parent :: string

record ListClustersResponse =
  clusters :: "ICluster nullable list nullable"

text \<open>
  What the provider does to the outside: log lines, calls of the cloud API and calls of the
  sink, in the order they happen.
\<close>

datatype event =
    LoggerInfo string
  | LoggerWarn string
  | LoggerError "string option" error
  | ListClusters ListClustersRequest
  | ApplyMutation EntityProviderMutation

text \<open>
  An asynchronous computation: the events it causes and either the value it resolves to
  (\<open>Inr\<close>) or the value it throws or rejects with (\<open>Inl\<close>).
\<close>

type_synonym 'a io = "event list \<times> (error + 'a)"

definition io_return :: "'a \<Rightarrow> 'a io" where
  "io_return x = ([], Inr x)"

definition io_throw :: "error \<Rightarrow> 'a io" where
  "io_throw e = ([], Inl e)"

definition emit :: "event \<Rightarrow> unit io" where
  "emit ev = ([ev], Inr ())"

definition io_bind :: "'a io \<Rightarrow> ('a \<Rightarrow> 'b io) \<Rightarrow> 'b io" where
  "io_bind m f =
     (case snd m of
        Inl e \<Rightarrow> (fst m, Inl e)
      | Inr x \<Rightarrow> (fst m @ fst (f x), snd (f x)))"

text \<open>\<^verbatim>\<open>try { m } catch (e) { h(e) }\<close>\<close>

definition try_catch :: "'a io \<Rightarrow> (error \<Rightarrow> 'a io) \<Rightarrow> 'a io" where
  "try_catch m h =
     (case snd m of
        Inl e \<Rightarrow> (fst m @ fst (h e), snd (h e))
      | Inr x \<Rightarrow> m)"

text \<open>
  \<^verbatim>\<open>xs.map(f)\<close> with a callback that may throw: the elements are visited in order and the
  first exception ends the loop.
\<close>

fun array_map :: "('a \<Rightarrow> 'b io) \<Rightarrow> 'a list \<Rightarrow> 'b list io" where
  "array_map f [] = io_return []"
| "array_map f (x # xs) =
     io_bind (f x) (\<lambda>y. io_bind (array_map f xs) (\<lambda>ys. io_return (y # ys)))"

text \<open>
  \<^verbatim>\<open>Promise.all(ps)\<close> over promises that have all been started. Each promise comes
  with the instant at which it settles. The events of every promise happen. If all
  resolve, the result is the list of their values, in the order of the list. If some
  reject, the result is the reason of the one that rejects first in time, whatever its
  place in the list; of two rejections at the same instant the earlier in the list wins.
\<close>

fun first_rejection :: "(nat \<times> 'a io) list \<Rightarrow> (nat \<times> error) option" where
  "first_rejection [] = None"
| "first_rejection (p # ps) =
     (case snd (snd p) of
        Inr x \<Rightarrow> first_rejection ps
      | Inl e \<Rightarrow>
          (case first_rejection ps of
             None \<Rightarrow> Some (fst p, e)
           | Some later \<Rightarrow> if fst later < fst p then Some later else Some (fst p, e)))"

fun resolved_values :: "(nat \<times> 'a io) list \<Rightarrow> 'a list" where
  "resolved_values [] = []"
| "resolved_values (p # ps) =
     (case snd (snd p) of
        Inr x \<Rightarrow> x # resolved_values ps
      | Inl e \<Rightarrow> resolved_values ps)"

definition Promise_all :: "(nat \<times> 'a io) list \<Rightarrow> 'a list io" where
  "Promise_all ps =
     (concat (map (\<lambda>p. fst (snd p)) ps),
      case first_rejection ps of
        Some rejection \<Rightarrow> Inl (snd rejection)
      | None \<Rightarrow> Inr (resolved_values ps))"

section \<open>Collaborators\<close>

text \<open>
  The cloud client: what a list call resolves to or rejects with, and the instant at
  which its promise settles. The instants may change from one cycle to the next while
  the responses stay the same.
\<close>

record ClusterManagerClient =
  listClusters :: "ListClustersRequest \<Rightarrow> error + ListClustersResponse"
  settled :: "ListClustersRequest \<Rightarrow> nat"

record EntityProviderConnection =
  applyMutation :: "EntityProviderMutation \<Rightarrow> error option"

text \<open>
  The three annotation keys imported from the Kubernetes common package, whose values
  are not part of this module: they are a parameter of the model.
\<close>

record kubernetes_common =
  ANNOTATION_KUBERNETES_API_SERVER :: string
  ANNOTATION_KUBERNETES_API_SERVER_CA :: string
  ANNOTATION_KUBERNETES_AUTH_PROVIDER :: string

section \<open>The provider\<close>

text \<open>
  The fields of the class that \<open>refresh\<close> reads. The logger is the event list; the
  schedule function is built from the task runner by \<open>createScheduleFn\<close> below.
\<close>

record GkeEntityProvider =
  gkeParents :: "string list"
  clusterManagerClient :: ClusterManagerClient
  connection :: "EntityProviderConnection option"

definition constructor :: "string list \<Rightarrow> ClusterManagerClient \<Rightarrow> GkeEntityProvider" where
  "constructor gkeParents' clusterManagerClient' =
     \<lparr>gkeParents = gkeParents', clusterManagerClient = clusterManagerClient', connection = None\<rparr>"

definition getProviderName :: string where
  "getProviderName = ''gcp-gke''"

definition filterOutUndefinedDeferredEntity :: "DeferredEntity option \<Rightarrow> bool" where
  "filterOutUndefinedDeferredEntity e = (e \<noteq> None)"

definition filterOutUndefinedCluster :: "ICluster nullable \<Rightarrow> bool" where
  "filterOutUndefinedCluster c = (c \<noteq> Undefined \<and> c \<noteq> Null)"

text \<open>\<^verbatim>\<open>cluster.masterAuth?.clusterCaCertificate\<close>\<close>

definition masterAuth_clusterCaCertificate :: "ICluster \<Rightarrow> string nullable" where
  "masterAuth_clusterCaCertificate cluster =
     (case masterAuth cluster of
        Val m \<Rightarrow> clusterCaCertificate m
      | Undefined \<Rightarrow> Undefined
      | Null \<Rightarrow> Undefined)"

definition ignoring_partial_cluster :: "ICluster \<Rightarrow> string" where
  "ignoring_partial_cluster cluster =
     ''ignoring partial cluster, one of name='' @ template (ICluster.name cluster)
     @ '', endpoint='' @ template (endpoint cluster)
     @ '', selfLink='' @ template (selfLink cluster)
     @ '' or location='' @ template (location cluster)
     @ '' is missing''"

fun clusterToResource ::
  "kubernetes_common \<Rightarrow> ICluster nullable \<Rightarrow> DeferredEntity option io" where
  "clusterToResource K Undefined = io_throw TypeError"
| "clusterToResource K Null = io_throw TypeError"
| "clusterToResource K (Val cluster) =
     (let location = getProviderName @ '':'' @ template (ICluster.location cluster) in
      if falsy (ICluster.name cluster) \<or> falsy (selfLink cluster) \<or> location = []
         \<or> falsy (endpoint cluster)
      then io_bind (emit (LoggerWarn (ignoring_partial_cluster cluster)))
             (\<lambda>_. io_return None)
      else io_return (Some
        \<lparr>locationKey = location,
         entity =
           \<lparr>apiVersion = ''backstage.io/v1alpha1'',
            kind = ''Resource'',
            metadata =
              \<lparr>annotations = object_literal
                 [(ANNOTATION_KUBERNETES_API_SERVER K, ''https://'' @ template (endpoint cluster)),
                  (ANNOTATION_KUBERNETES_API_SERVER_CA K,
                     or_else (masterAuth_clusterCaCertificate cluster) []),
                  (ANNOTATION_KUBERNETES_AUTH_PROVIDER K, ''google''),
                  (''backstage.io/managed-by-location'', location),
                  (''backstage.io/managed-by-origin-location'', location)],
               name = ICluster.name cluster,
               namespace = ''default''\<rparr>,
            spec = \<lparr>EntitySpec.type = ''kubernetes-cluster'', owner = ''unknown''\<rparr>\<rparr>\<rparr>))"

text \<open>
  The asynchronous callback that \<open>getClusters\<close> maps over the parents: one list call,
  then \<^verbatim>\<open>response.clusters?.filter(this.filterOutUndefinedCluster) ?? []\<close>.
\<close>

definition listParent :: "GkeEntityProvider \<Rightarrow> string \<Rightarrow> ICluster nullable list io" where
  "listParent this parent' =
     (let request = \<lparr>parent = parent'\<rparr> in
      io_bind ([ListClusters request], listClusters (clusterManagerClient this) request)
        (\<lambda>response. io_return
           (case clusters response of
              Val cs \<Rightarrow> filter filterOutUndefinedCluster cs
            | Undefined \<Rightarrow> []
            | Null \<Rightarrow> [])))"

definition getClusters :: "GkeEntityProvider \<Rightarrow> ICluster nullable list io" where
  "getClusters this =
     io_bind (Promise_all (map (\<lambda>parent'.
                (settled (clusterManagerClient this) \<lparr>parent = parent'\<rparr>,
                 listParent this parent')) (gkeParents this)))
       (\<lambda>clusters. io_return (concat clusters))"

definition refresh :: "kubernetes_common \<Rightarrow> GkeEntityProvider \<Rightarrow> unit io" where
  "refresh K this =
     (case connection this of
        None \<Rightarrow> io_throw (Error ''Not initialized'')
      | Some connection' \<Rightarrow>
          io_bind (emit (LoggerInfo ''Discovering GKE clusters'')) (\<lambda>_.
          io_bind (try_catch (io_bind (getClusters this) (\<lambda>cs. io_return (Some cs)))
                     (\<lambda>e. io_bind (emit (LoggerError (Some ''error fetching GKE clusters'') e))
                            (\<lambda>_. io_return None))) (\<lambda>fetched.
          case fetched of
            None \<Rightarrow> io_return ()
          | Some clusters' \<Rightarrow>
              io_bind (array_map (clusterToResource K) clusters') (\<lambda>mapped.
              let resources = [r. Some r \<leftarrow> filter filterOutUndefinedDeferredEntity mapped] in
              io_bind (emit (LoggerInfo (''Ingesting GKE clusters [''
                         @ join (map (\<lambda>r. EntityMeta.name (metadata (entity r))) resources) '', ''
                         @ '']''))) (\<lambda>_.
              let mutation = \<lparr>EntityProviderMutation.type = ''full'', entities = resources\<rparr> in
              ([ApplyMutation mutation],
               case applyMutation connection' mutation of
                 Some e \<Rightarrow> Inl e
               | None \<Rightarrow> Inr ()))))))"

text \<open>
  The task handed to the task runner. Its \<open>fn\<close> reads the provider's fields when
  it is invoked, so it takes the provider's state at that moment.
\<close>

record TaskInvocationDefinition =
  task_id :: string
  fn :: "GkeEntityProvider \<Rightarrow> unit io"

record 'r TaskRunner =
  run :: "TaskInvocationDefinition \<Rightarrow> 'r"

definition scheduled_fn :: "kubernetes_common \<Rightarrow> GkeEntityProvider \<Rightarrow> unit io" where
  "scheduled_fn K this = try_catch (refresh K this) (\<lambda>error. emit (LoggerError None error))"

definition createScheduleFn :: "kubernetes_common \<Rightarrow> 'r TaskRunner \<Rightarrow> unit \<Rightarrow> 'r" where
  "createScheduleFn K taskRunner =
     (\<lambda>_. let taskId = getProviderName @ '':refresh'' in
           run taskRunner \<lparr>task_id = taskId, fn = scheduled_fn K\<rparr>)"

definition connect ::
  "kubernetes_common \<Rightarrow> 'r TaskRunner \<Rightarrow> GkeEntityProvider \<Rightarrow> EntityProviderConnection
     \<Rightarrow> GkeEntityProvider \<times> 'r" where
  "connect K taskRunner this connection' =
     (this\<lparr>connection := Some connection'\<rparr>, createScheduleFn K taskRunner ())"


section \<open>What the code submits\<close>

text \<open>
  These definitions describe the code, not what is expected of it: they name what the
  map and filter of \<open>refresh\<close> compute, so that the lemmas below can state it.

  The entities that the code yields for one entry of a list response: none for a null or
  undefined entry, none where \<open>clusterToResource\<close> returns undefined, and otherwise the
  entity that \<open>clusterToResource\<close> returns.
\<close>

fun mapped_entity :: "kubernetes_common \<Rightarrow> ICluster nullable \<Rightarrow> DeferredEntity list" where
  "mapped_entity K (Val c) =
     (case snd (clusterToResource K (Val c)) of Inr (Some e) \<Rightarrow> [e] | _ \<Rightarrow> [])"
| "mapped_entity K Undefined = []"
| "mapped_entity K Null = []"

text \<open>
  The entities that the code yields for one parent's response, in order.
\<close>

definition parent_entities ::
  "kubernetes_common \<Rightarrow> GkeEntityProvider \<Rightarrow> string \<Rightarrow> DeferredEntity list" where
  "parent_entities K this parent' =
     (case listClusters (clusterManagerClient this) \<lparr>parent = parent'\<rparr> of
        Inl e \<Rightarrow> []
      | Inr response \<Rightarrow>
          (case clusters response of
             Val cs \<Rightarrow> concat (map (mapped_entity K) cs)
           | Undefined \<Rightarrow> []
           | Null \<Rightarrow> []))"

text \<open>
  The mutation that the code submits in a cycle whose list calls all succeed (lemma
  \<open>refresh_resolved\<close>).
\<close>

definition full_mutation :: "kubernetes_common \<Rightarrow> GkeEntityProvider \<Rightarrow> EntityProviderMutation" where
  "full_mutation K this =
     \<lparr>EntityProviderMutation.type = ''full'',
      entities = concat (map (parent_entities K this) (gkeParents this))\<rparr>"

text \<open>
  The non-null entries of a response, and of a parent's response.
\<close>

definition kept_clusters :: "ListClustersResponse \<Rightarrow> ICluster nullable list" where
  "kept_clusters response =
     (case clusters response of
        Val cs \<Rightarrow> filter filterOutUndefinedCluster cs
      | Undefined \<Rightarrow> []
      | Null \<Rightarrow> [])"

definition parent_clusters :: "GkeEntityProvider \<Rightarrow> string \<Rightarrow> ICluster nullable list" where
  "parent_clusters this parent' =
     (case listClusters (clusterManagerClient this) \<lparr>parent = parent'\<rparr> of
        Inl e \<Rightarrow> []
      | Inr response \<Rightarrow> kept_clusters response)"

text \<open>
  The value \<open>clusterToResource\<close> returns for an entry, where it returns.
\<close>

definition mapped_result :: "kubernetes_common \<Rightarrow> ICluster nullable \<Rightarrow> DeferredEntity option" where
  "mapped_result K c = (case snd (clusterToResource K c) of Inr r \<Rightarrow> r | Inl e \<Rightarrow> None)"

text \<open>
  The sink calls and the cloud API calls among the events of a run.
\<close>

definition sink_calls :: "event list \<Rightarrow> EntityProviderMutation list" where
  "sink_calls evs = [m. ApplyMutation m \<leftarrow> evs]"

definition api_calls :: "event list \<Rightarrow> ListClustersRequest list" where
  "api_calls evs = [r. ListClusters r \<leftarrow> evs]"

section \<open>What a cycle is expected to submit\<close>

text \<open>
  Following the spec's words: a record is valid when its name, selfLink, location and
  endpoint are all present and non-empty.
\<close>

definition valid_record :: "ICluster \<Rightarrow> bool" where
  "valid_record c =
     (\<not> falsy (ICluster.name c) \<and> \<not> falsy (selfLink c) \<and> \<not> falsy (location c)
      \<and> \<not> falsy (endpoint c))"

text \<open>
  Following the spec's words: an entry contributes its mapped entity if it is a valid
  record, and nothing otherwise; the expected entities of a cycle are the union over all
  parents, in order, of the entities mapped from the valid records of their responses.
\<close>

fun valid_mapped_entity :: "kubernetes_common \<Rightarrow> ICluster nullable \<Rightarrow> DeferredEntity list" where
  "valid_mapped_entity K (Val c) =
     (if valid_record c
      then (case snd (clusterToResource K (Val c)) of Inr (Some e) \<Rightarrow> [e] | _ \<Rightarrow> [])
      else [])"
| "valid_mapped_entity K Undefined = []"
| "valid_mapped_entity K Null = []"

definition valid_mapped_entities ::
  "kubernetes_common \<Rightarrow> GkeEntityProvider \<Rightarrow> DeferredEntity list" where
  "valid_mapped_entities K this =
     concat (map (\<lambda>parent'.
       case listClusters (clusterManagerClient this) \<lparr>parent = parent'\<rparr> of
         Inl e \<Rightarrow> []
       | Inr response \<Rightarrow>
           (case clusters response of
              Val cs \<Rightarrow> concat (map (valid_mapped_entity K) cs)
            | Undefined \<Rightarrow> []
            | Null \<Rightarrow> [])) (gkeParents this))"

section \<open>Further notions\<close>

text \<open>
  The five keys of the annotations object are pairwise distinct.
\<close>

definition keys_distinct :: "kubernetes_common \<Rightarrow> bool" where
  "keys_distinct K =
     distinct [ANNOTATION_KUBERNETES_API_SERVER K,
               ANNOTATION_KUBERNETES_API_SERVER_CA K,
               ANNOTATION_KUBERNETES_AUTH_PROVIDER K,
               ''backstage.io/managed-by-location'',
               ''backstage.io/managed-by-origin-location'']"

text \<open>
  Modelled from the spec: the task runner is not part of this module. The spec speaks of
  a recurring schedule that a failing cycle must never terminate; this is the least
  forgiving such schedule: \<open>fn\<close> is invoked once per tick, on the provider's state at that
  tick, and the schedule ends for good at the first invocation that throws. The result
  lists the invocations that took place.
\<close>

fun run_recurring :: "('s \<Rightarrow> unit io) \<Rightarrow> 's list \<Rightarrow> unit io list" where
  "run_recurring f [] = []"
| "run_recurring f (s # ss) =
     (case snd (f s) of
        Inl e \<Rightarrow> [f s]
      | Inr u \<Rightarrow> f s # run_recurring f ss)"

section \<open>Concrete inputs\<close>

text \<open>
  The values the three imported keys have in the Kubernetes common package, and the
  scenario of two parents \<open>p1\<close> and \<open>p2\<close>.
\<close>

definition example_keys :: kubernetes_common where
  "example_keys =
     \<lparr>ANNOTATION_KUBERNETES_API_SERVER = ''kubernetes.io/api-server'',
      ANNOTATION_KUBERNETES_API_SERVER_CA = ''kubernetes.io/api-server-certificate-authority'',
      ANNOTATION_KUBERNETES_AUTH_PROVIDER = ''kubernetes.io/auth-provider''\<rparr>"

definition cluster_a :: ICluster where
  "cluster_a =
     \<lparr>ICluster.name = Val ''a'', selfLink = Val ''s'', location = Val ''us'',
      endpoint = Val ''1.2.3.4'', masterAuth = Undefined\<rparr>"

definition cluster_no_endpoint :: ICluster where
  "cluster_no_endpoint =
     \<lparr>ICluster.name = Val ''b'', selfLink = Val ''t'', location = Val ''eu'',
      endpoint = Undefined, masterAuth = Undefined\<rparr>"

definition cluster_no_location :: ICluster where
  "cluster_no_location =
     \<lparr>ICluster.name = Val ''a'', selfLink = Val ''s'', location = Undefined,
      endpoint = Val ''1.2.3.4'', masterAuth = Undefined\<rparr>"

definition entity_a :: DeferredEntity where
  "entity_a =
     \<lparr>locationKey = ''gcp-gke:us'',
      entity =
        \<lparr>apiVersion = ''backstage.io/v1alpha1'',
         kind = ''Resource'',
         metadata =
           \<lparr>annotations =
              [(''kubernetes.io/api-server'', ''https://1.2.3.4''),
               (''kubernetes.io/api-server-certificate-authority'', []),
               (''kubernetes.io/auth-provider'', ''google''),
               (''backstage.io/managed-by-location'', ''gcp-gke:us''),
               (''backstage.io/managed-by-origin-location'', ''gcp-gke:us'')],
            name = Val ''a'',
            namespace = ''default''\<rparr>,
         spec = \<lparr>EntitySpec.type = ''kubernetes-cluster'', owner = ''unknown''\<rparr>\<rparr>\<rparr>"

definition example_client :: ClusterManagerClient where
  "example_client =
     \<lparr>listClusters = (\<lambda>request.
        if parent request = ''p1'' then Inr \<lparr>clusters = Val [Val cluster_a, Null]\<rparr>
        else Inr \<lparr>clusters = Val [Val cluster_no_endpoint]\<rparr>),
      settled = (\<lambda>request. if parent request = ''p1'' then 2 else 1)\<rparr>"

definition failing_client :: ClusterManagerClient where
  "failing_client =
     \<lparr>listClusters = (\<lambda>request.
        if parent request = ''p1'' then Inl (Error ''unavailable'')
        else Inr \<lparr>clusters = Val [Val cluster_a]\<rparr>),
      settled = (\<lambda>request. if parent request = ''p1'' then 2 else 1)\<rparr>"

definition example_connection :: EntityProviderConnection where
  "example_connection = \<lparr>applyMutation = (\<lambda>mutation. None)\<rparr>"

definition rejecting_connection :: EntityProviderConnection where
  "rejecting_connection = \<lparr>applyMutation = (\<lambda>mutation. Some (Error ''conflict''))\<rparr>"

definition example_provider :: GkeEntityProvider where
  "example_provider =
     \<lparr>gkeParents = [''p1'', ''p2''], clusterManagerClient = example_client,
      connection = Some example_connection\<rparr>"

definition failing_provider :: GkeEntityProvider where
  "failing_provider =
     \<lparr>gkeParents = [''p1'', ''p2''], clusterManagerClient = failing_client,
      connection = Some example_connection\<rparr>"

definition entity_no_location :: DeferredEntity where
  "entity_no_location =
     \<lparr>locationKey = ''gcp-gke:undefined'',
      entity =
        \<lparr>apiVersion = ''backstage.io/v1alpha1'',
         kind = ''Resource'',
         metadata =
           \<lparr>annotations =
              [(''kubernetes.io/api-server'', ''https://1.2.3.4''),
               (''kubernetes.io/api-server-certificate-authority'', []),
               (''kubernetes.io/auth-provider'', ''google''),
               (''backstage.io/managed-by-location'', ''gcp-gke:undefined''),
               (''backstage.io/managed-by-origin-location'', ''gcp-gke:undefined'')],
            name = Val ''a'',
            namespace = ''default''\<rparr>,
         spec = \<lparr>EntitySpec.type = ''kubernetes-cluster'', owner = ''unknown''\<rparr>\<rparr>\<rparr>"

definition no_location_client :: ClusterManagerClient where
  "no_location_client =
     \<lparr>listClusters = (\<lambda>request. Inr \<lparr>clusters = Val [Val cluster_no_location]\<rparr>),
      settled = (\<lambda>request. 1)\<rparr>"

definition no_location_provider :: GkeEntityProvider where
  "no_location_provider =
     \<lparr>gkeParents = [''p1''], clusterManagerClient = no_location_client,
      connection = Some example_connection\<rparr>"

text \<open>
  Both list calls reject; the call for \<open>p1\<close> settles at the given instant, the call for
  \<open>p2\<close> at instant 5.
\<close>

definition racing_client :: "nat \<Rightarrow> ClusterManagerClient" where
  "racing_client t =
     \<lparr>listClusters = (\<lambda>request.
        if parent request = ''p1'' then Inl (Error ''e1'') else Inl (Error ''e2'')),
      settled = (\<lambda>request. if parent request = ''p1'' then t else 5)\<rparr>"

definition racing_provider :: "nat \<Rightarrow> GkeEntityProvider" where
  "racing_provider t =
     \<lparr>gkeParents = [''p1'', ''p2''], clusterManagerClient = racing_client t,
      connection = Some example_connection\<rparr>"

definition null_clusters_client :: ClusterManagerClient where
  "null_clusters_client =
     \<lparr>listClusters = (\<lambda>request.
        if parent request = ''p1'' then Inr \<lparr>clusters = Val [Val cluster_a]\<rparr>
        else Inr \<lparr>clusters = Null\<rparr>),
      settled = (\<lambda>request. if parent request = ''p1'' then 2 else 1)\<rparr>"

definition null_clusters_provider :: GkeEntityProvider where
  "null_clusters_provider =
     \<lparr>gkeParents = [''p1'', ''p2''], clusterManagerClient = null_clusters_client,
      connection = Some example_connection\<rparr>"

section \<open>Lemmas on the effects\<close>

lemma Promise_all_events: "fst (Promise_all ps) = concat (map (\<lambda>p. fst (snd p)) ps)"
  by (simp add: Promise_all_def)

lemma first_rejection_None:
  "first_rejection ps = None \<longleftrightarrow> (\<forall>p \<in> set ps. \<exists>x. snd (snd p) = Inr x)"
  by (induction ps) (auto split: sum.splits option.splits)

lemma first_rejection_Some:
  "first_rejection ps = Some (t, e) \<Longrightarrow> \<exists>p \<in> set ps. fst p = t \<and> snd (snd p) = Inl e"
proof (induction ps arbitrary: t e)
  case Nil
  then show ?case by simp
next
  case (Cons q qs)
  show ?case
  proof (cases "snd (snd q)")
    case (Inr x)
    with Cons.prems have "first_rejection qs = Some (t, e)" by simp
    from Cons.IH [OF this] show ?thesis by auto
  next
    case (Inl a)
    show ?thesis
    proof (cases "first_rejection qs")
      case None
      with Inl Cons.prems show ?thesis by auto
    next
      case (Some later)
      obtain t' e' where later: "later = (t', e')" by (cases later)
      from Cons.IH [of t' e'] Some later
      have "\<exists>p \<in> set qs. fst p = t' \<and> snd (snd p) = Inl e'" by simp
      with Inl Some later Cons.prems show ?thesis
        by (auto split: if_splits)
    qed
  qed
qed

lemma first_rejection_earliest:
  "first_rejection ps = Some (t, e) \<Longrightarrow> p \<in> set ps \<Longrightarrow> snd (snd p) = Inl e' \<Longrightarrow> t \<le> fst p"
proof (induction ps arbitrary: t e)
  case Nil
  then show ?case by simp
next
  case (Cons q qs)
  show ?case
  proof (cases "snd (snd q)")
    case (Inr x)
    with Cons.prems have "first_rejection qs = Some (t, e)" and "p \<in> set qs" by auto
    from Cons.IH [OF this Cons.prems(3)] show ?thesis .
  next
    case (Inl a)
    show ?thesis
    proof (cases "first_rejection qs")
      case None
      then have "\<forall>p \<in> set qs. \<exists>x. snd (snd p) = Inr x"
        by (simp add: first_rejection_None)
      with Cons.prems(2,3) have "p = q" by auto
      with Inl None Cons.prems(1) show ?thesis by simp
    next
      case (Some later)
      obtain t' e'' where later: "later = (t', e'')" by (cases later)
      have IH: "p \<in> set qs \<Longrightarrow> t' \<le> fst p"
        using Cons.IH [of t' e''] Some later Cons.prems(3) by simp
      from Inl Some later Cons.prems(1)
      have "t = (if t' < fst q then t' else fst q)" by (auto split: if_splits)
      with IH Cons.prems(2) show ?thesis by (auto split: if_splits)
    qed
  qed
qed

lemma Promise_all_resolves:
  "(\<forall>x \<in> set xs. snd (f x) = Inr (g x)) \<Longrightarrow>
     snd (Promise_all (map (\<lambda>x. (t x, f x)) xs)) = Inr (map g xs)"
proof -
  assume a: "\<forall>x \<in> set xs. snd (f x) = Inr (g x)"
  then have "first_rejection (map (\<lambda>x. (t x, f x)) xs) = None"
    by (simp add: first_rejection_None)
  moreover from a have "resolved_values (map (\<lambda>x. (t x, f x)) xs) = map g xs"
    by (induction xs) simp_all
  ultimately show ?thesis by (simp add: Promise_all_def)
qed

lemma Promise_all_rejects:
  "p \<in> set ps \<Longrightarrow> snd (snd p) = Inl e \<Longrightarrow>
     \<exists>p' e'. p' \<in> set ps \<and> snd (snd p') = Inl e' \<and> snd (Promise_all ps) = Inl e'"
proof -
  assume p: "p \<in> set ps" and e: "snd (snd p) = Inl e"
  have "first_rejection ps \<noteq> None"
  proof
    assume "first_rejection ps = None"
    with p obtain x where "snd (snd p) = Inr x"
      by (auto simp: first_rejection_None)
    with e show False by simp
  qed
  then obtain t' e' where first: "first_rejection ps = Some (t', e')" by auto
  from first_rejection_Some [OF this] obtain p' where
    "p' \<in> set ps" "snd (snd p') = Inl e'" by blast
  moreover from first have "snd (Promise_all ps) = Inl e'"
    by (simp add: Promise_all_def)
  ultimately show ?thesis by blast
qed

lemma array_map_resolves:
  "(\<forall>x \<in> set xs. snd (f x) = Inr (g x)) \<Longrightarrow>
     array_map f xs = (concat (map (\<lambda>x. fst (f x)) xs), Inr (map g xs))"
  by (induction xs) (simp_all add: io_return_def io_bind_def)

lemma clusterToResource_rejected:
  "falsy (ICluster.name c) \<or> falsy (selfLink c) \<or> falsy (endpoint c) \<Longrightarrow>
     clusterToResource K (Val c) = ([LoggerWarn (ignoring_partial_cluster c)], Inr None)"
  by (auto simp: Let_def io_bind_def io_return_def emit_def)

lemma clusterToResource_accepted:
  "\<not> falsy (ICluster.name c) \<Longrightarrow> \<not> falsy (selfLink c) \<Longrightarrow> \<not> falsy (endpoint c) \<Longrightarrow>
     \<exists>e. clusterToResource K (Val c) = ([], Inr (Some e))
       \<and> locationKey e = getProviderName @ '':'' @ template (location c)
       \<and> EntityMeta.name (metadata (entity e)) = ICluster.name c"
  by (simp add: Let_def io_return_def getProviderName_def)

lemma clusterToResource_Val_resolves:
  "\<exists>r. snd (clusterToResource K (Val c)) = Inr r"
  by (simp add: Let_def io_bind_def io_return_def emit_def)

lemma clusterToResource_kept:
  "filterOutUndefinedCluster c \<Longrightarrow>
     snd (clusterToResource K c)
       = Inr (case snd (clusterToResource K c) of Inr r \<Rightarrow> r | Inl e \<Rightarrow> None)"
proof (cases c)
  case (Val x)
  obtain r where "snd (clusterToResource K (Val x)) = Inr r"
    using clusterToResource_Val_resolves by blast
  with Val show ?thesis by (simp del: clusterToResource.simps)
qed (simp_all add: filterOutUndefinedCluster_def)

lemma listParent_events: "fst (listParent this q) = [ListClusters \<lparr>parent = q\<rparr>]"
  by (simp add: listParent_def Let_def io_bind_def io_return_def split: sum.splits)

lemma listParent_result:
  "snd (listParent this q) =
     (case listClusters (clusterManagerClient this) \<lparr>parent = q\<rparr> of
        Inl e \<Rightarrow> Inl e
      | Inr response \<Rightarrow> Inr (kept_clusters response))"
  by (simp add: listParent_def Let_def io_bind_def io_return_def kept_clusters_def
      split: sum.splits)

lemma getClusters_events:
  "fst (getClusters this) = map (\<lambda>q. ListClusters \<lparr>parent = q\<rparr>) (gkeParents this)"
proof -
  have "concat (map (\<lambda>p. fst (snd p)) (map (\<lambda>q. (t q, listParent this q)) qs))
      = map (\<lambda>q. ListClusters \<lparr>parent = q\<rparr>) qs"
    for qs and t :: "string \<Rightarrow> nat" by (induction qs) (simp_all add: listParent_events)
  then show ?thesis
    by (simp add: getClusters_def io_bind_def io_return_def Promise_all_events
        split: sum.splits)
qed

lemma getClusters_resolves:
  assumes "\<forall>q \<in> set (gkeParents this).
             \<exists>r. listClusters (clusterManagerClient this) \<lparr>parent = q\<rparr> = Inr r"
  shows "snd (getClusters this) = Inr (concat (map (parent_clusters this) (gkeParents this)))"
proof -
  have "\<forall>q \<in> set (gkeParents this). snd (listParent this q) = Inr (parent_clusters this q)"
    using assms by (auto simp: listParent_result parent_clusters_def)
  then have "snd (Promise_all (map (\<lambda>q.
        (settled (clusterManagerClient this) \<lparr>parent = q\<rparr>, listParent this q))
        (gkeParents this)))
      = Inr (map (parent_clusters this) (gkeParents this))"
    by (rule Promise_all_resolves)
  then show ?thesis
    by (simp add: getClusters_def io_bind_def io_return_def)
qed

lemma getClusters_rejects:
  assumes "q \<in> set (gkeParents this)"
    and "listClusters (clusterManagerClient this) \<lparr>parent = q\<rparr> = Inl e"
  shows "\<exists>q' e'. q' \<in> set (gkeParents this)
           \<and> listClusters (clusterManagerClient this) \<lparr>parent = q'\<rparr> = Inl e'
           \<and> snd (getClusters this) = Inl e'"
proof -
  let ?ps = "map (\<lambda>q. (settled (clusterManagerClient this) \<lparr>parent = q\<rparr>,
                          listParent this q)) (gkeParents this)"
  have "(settled (clusterManagerClient this) \<lparr>parent = q\<rparr>, listParent this q) \<in> set ?ps"
    using assms(1) by simp
  moreover have "snd (snd (settled (clusterManagerClient this) \<lparr>parent = q\<rparr>,
                           listParent this q)) = Inl e"
    using assms(2) by (simp add: listParent_result)
  ultimately obtain p' e' where p': "p' \<in> set ?ps"
    and e': "snd (snd p') = Inl e'"
    and all: "snd (Promise_all ?ps) = Inl e'"
    using Promise_all_rejects by blast
  from p' obtain q' where q': "q' \<in> set (gkeParents this)"
    and "snd p' = listParent this q'"
    by auto
  with e' have "listClusters (clusterManagerClient this) \<lparr>parent = q'\<rparr> = Inl e'"
    by (simp add: listParent_result split: sum.splits)
  moreover from all have "snd (getClusters this) = Inl e'"
    by (simp add: getClusters_def io_bind_def)
  ultimately show ?thesis using q' by blast
qed

lemma kept_clusters_filtered: "c \<in> set (kept_clusters r) \<Longrightarrow> filterOutUndefinedCluster c"
  by (auto simp: kept_clusters_def split: nullable.splits)

lemma parent_clusters_filtered:
  "c \<in> set (parent_clusters this q) \<Longrightarrow> filterOutUndefinedCluster c"
  by (auto simp: parent_clusters_def kept_clusters_filtered split: sum.splits)

lemma mapped_entity_filter:
  "concat (map (mapped_entity K) (filter filterOutUndefinedCluster cs))
     = concat (map (mapped_entity K) cs)"
proof (induction cs)
  case Nil
  then show ?case by simp
next
  case (Cons c cs)
  then show ?case
    by (cases c) (simp_all add: filterOutUndefinedCluster_def del: mapped_entity.simps(1))
qed

lemma parent_entities_clusters:
  "concat (map (mapped_entity K) (parent_clusters this q)) = parent_entities K this q"
  by (simp add: parent_clusters_def parent_entities_def kept_clusters_def mapped_entity_filter
      split: sum.splits nullable.splits)

lemma mapped_entity_concat:
  "concat (map (mapped_entity K) (concat (map (parent_clusters this) qs)))
     = concat (map (parent_entities K this) qs)"
  by (induction qs) (simp_all add: parent_entities_clusters)

lemma resources_mapped_entity:
  "(\<forall>c \<in> set cs. filterOutUndefinedCluster c) \<Longrightarrow>
     [r. Some r \<leftarrow> filter filterOutUndefinedDeferredEntity (map (mapped_result K) cs)]
       = concat (map (mapped_entity K) cs)"
proof (induction cs)
  case Nil
  then show ?case by simp
next
  case (Cons c cs)
  from Cons.prems obtain x where c: "c = Val x"
    by (cases c) (auto simp: filterOutUndefinedCluster_def)
  obtain r where r: "snd (clusterToResource K (Val x)) = Inr r"
    using clusterToResource_Val_resolves by blast
  have "[r. Some r \<leftarrow> filter filterOutUndefinedDeferredEntity [mapped_result K c]]
          = mapped_entity K c"
    using c r by (cases r)
      (simp_all add: mapped_result_def filterOutUndefinedDeferredEntity_def
        del: clusterToResource.simps)
  with Cons show ?case
    by (auto simp del: mapped_entity.simps split: if_splits)
qed

lemma array_map_clusterToResource:
  assumes "\<forall>c \<in> set cs. filterOutUndefinedCluster c"
  shows "array_map (clusterToResource K) cs
           = (concat (map (\<lambda>c. fst (clusterToResource K c)) cs), Inr (map (mapped_result K) cs))"
proof (rule array_map_resolves)
  show "\<forall>c \<in> set cs. snd (clusterToResource K c) = Inr (mapped_result K c)"
    using assms clusterToResource_kept by (simp add: mapped_result_def)
qed

lemma refresh_not_connected:
  "connection this = None \<Longrightarrow> refresh K this = ([], Inl (Error ''Not initialized''))"
  by (simp add: refresh_def io_throw_def)

lemma refresh_rejected:
  assumes "connection this = Some conn" and "snd (getClusters this) = Inl e"
  shows "refresh K this =
           (LoggerInfo ''Discovering GKE clusters''
              # map (\<lambda>q. ListClusters \<lparr>parent = q\<rparr>) (gkeParents this)
              @ [LoggerError (Some ''error fetching GKE clusters'') e],
            Inr ())"
  using assms
  by (simp add: refresh_def io_bind_def try_catch_def emit_def io_return_def
      getClusters_events)

lemma clusterToResource_events: "\<exists>ws. fst (clusterToResource K c) = map LoggerWarn ws"
proof (cases c)
  case (Val x)
  show ?thesis
  proof (cases "falsy (ICluster.name x) \<or> falsy (selfLink x) \<or> falsy (endpoint x)")
    case True
    then have "fst (clusterToResource K c) = map LoggerWarn [ignoring_partial_cluster x]"
      using Val by (simp add: clusterToResource_rejected del: clusterToResource.simps)
    then show ?thesis by blast
  next
    case False
    then have "fst (clusterToResource K c) = map LoggerWarn []"
      using Val clusterToResource_accepted [of x K] by auto
    then show ?thesis by blast
  qed
qed (simp_all add: io_throw_def)

lemma array_map_events:
  "\<exists>ws. concat (map (\<lambda>c. fst (clusterToResource K c)) cs) = map LoggerWarn ws"
proof (induction cs)
  case Nil
  then show ?case by simp
next
  case (Cons c cs)
  then obtain ws where ws: "concat (map (\<lambda>c. fst (clusterToResource K c)) cs) = map LoggerWarn ws"
    by blast
  obtain w where "fst (clusterToResource K c) = map LoggerWarn w"
    using clusterToResource_events by blast
  with ws have "concat (map (\<lambda>c. fst (clusterToResource K c)) (c # cs)) = map LoggerWarn (w @ ws)"
    by simp
  then show ?case by blast
qed

lemma refresh_resolved:
  assumes "connection this = Some conn"
    and "\<forall>q \<in> set (gkeParents this).
           \<exists>r. listClusters (clusterManagerClient this) \<lparr>parent = q\<rparr> = Inr r"
  shows "\<exists>warnings line.
           refresh K this =
             (LoggerInfo ''Discovering GKE clusters''
                # map (\<lambda>q. ListClusters \<lparr>parent = q\<rparr>) (gkeParents this)
                @ map LoggerWarn warnings
                @ [LoggerInfo line, ApplyMutation (full_mutation K this)],
              case applyMutation conn (full_mutation K this) of
                Some e \<Rightarrow> Inl e
              | None \<Rightarrow> Inr ())"
proof -
  define cs where "cs = concat (map (parent_clusters this) (gkeParents this))"
  have got: "getClusters this
      = (map (\<lambda>q. ListClusters \<lparr>parent = q\<rparr>) (gkeParents this), Inr cs)"
    using getClusters_resolves [OF assms(2)] getClusters_events [of this]
    by (simp add: cs_def prod_eq_iff)
  have kept: "\<forall>c \<in> set cs. filterOutUndefinedCluster c"
    by (auto simp: cs_def parent_clusters_filtered)
  obtain ws where ws: "concat (map (\<lambda>c. fst (clusterToResource K c)) cs) = map LoggerWarn ws"
    using array_map_events by blast
  have mapped: "array_map (clusterToResource K) cs = (map LoggerWarn ws, Inr (map (mapped_result K) cs))"
    using array_map_clusterToResource [OF kept] ws by simp
  have resources: "[r. Some r \<leftarrow> filter filterOutUndefinedDeferredEntity (map (mapped_result K) cs)]
      = entities (full_mutation K this)"
    using resources_mapped_entity [OF kept]
    by (simp add: full_mutation_def cs_def mapped_entity_concat)
  have full: "\<lparr>EntityProviderMutation.type = ''full'', entities = entities (full_mutation K this)\<rparr>
      = full_mutation K this"
    by (simp add: full_mutation_def)
  show ?thesis
    using assms(1)
    by (simp add: refresh_def io_bind_def try_catch_def emit_def io_return_def got mapped
        resources full Let_def)
      blast
qed

lemma getClusters_resolved:
  assumes "snd (getClusters this) = Inr cs"
  shows "(\<forall>q \<in> set (gkeParents this).
            \<exists>r. listClusters (clusterManagerClient this) \<lparr>parent = q\<rparr> = Inr r)
         \<and> cs = concat (map (parent_clusters this) (gkeParents this))"
proof -
  have all: "\<forall>q \<in> set (gkeParents this).
      \<exists>r. listClusters (clusterManagerClient this) \<lparr>parent = q\<rparr> = Inr r"
  proof
    fix q assume q: "q \<in> set (gkeParents this)"
    show "\<exists>r. listClusters (clusterManagerClient this) \<lparr>parent = q\<rparr> = Inr r"
    proof (cases "listClusters (clusterManagerClient this) \<lparr>parent = q\<rparr>")
      case (Inl e)
      from getClusters_rejects [OF q Inl] assms show ?thesis by auto
    next
      case (Inr r)
      then show ?thesis by blast
    qed
  qed
  from getClusters_resolves [OF all] assms show ?thesis using all by simp
qed

lemma getClusters_kept:
  "snd (getClusters this) = Inr cs \<Longrightarrow> c \<in> set cs \<Longrightarrow> filterOutUndefinedCluster c"
  using getClusters_resolved [of this cs] by (auto simp: parent_clusters_filtered)

lemma refresh_fetched:
  assumes "connection this = Some conn" and "snd (getClusters this) = Inr cs"
  shows "\<exists>warnings line.
           refresh K this =
             (LoggerInfo ''Discovering GKE clusters''
                # map (\<lambda>q. ListClusters \<lparr>parent = q\<rparr>) (gkeParents this)
                @ map LoggerWarn warnings
                @ [LoggerInfo line,
                   ApplyMutation \<lparr>EntityProviderMutation.type = ''full'',
                                  entities = concat (map (mapped_entity K) cs)\<rparr>],
              case applyMutation conn \<lparr>EntityProviderMutation.type = ''full'',
                                  entities = concat (map (mapped_entity K) cs)\<rparr> of
                Some e \<Rightarrow> Inl e
              | None \<Rightarrow> Inr ())"
proof -
  have cs: "cs = concat (map (parent_clusters this) (gkeParents this))"
    and all: "\<forall>q \<in> set (gkeParents this).
      \<exists>r. listClusters (clusterManagerClient this) \<lparr>parent = q\<rparr> = Inr r"
    using getClusters_resolved [OF assms(2)] by simp_all
  show ?thesis
    using refresh_resolved [OF assms(1) all, of K]
    by (simp add: full_mutation_def cs mapped_entity_concat)
qed

lemma clusterToResource_annotations:
  assumes "keys_distinct K"
    and "snd (clusterToResource K (Val c)) = Inr (Some e)"
  shows "map_of (annotations (metadata (entity e))) (ANNOTATION_KUBERNETES_API_SERVER K)
           = Some (''https://'' @ template (endpoint c))"
    and "map_of (annotations (metadata (entity e))) (ANNOTATION_KUBERNETES_API_SERVER_CA K)
           = Some (or_else (masterAuth_clusterCaCertificate c) [])"
    and "map_of (annotations (metadata (entity e))) (ANNOTATION_KUBERNETES_AUTH_PROVIDER K)
           = Some ''google''"
    and "map_of (annotations (metadata (entity e))) ''backstage.io/managed-by-location''
           = Some (locationKey e)"
    and "map_of (annotations (metadata (entity e))) ''backstage.io/managed-by-origin-location''
           = Some (locationKey e)"
  using assms
  by (auto simp: keys_distinct_def Let_def io_bind_def io_return_def emit_def
      object_literal_def update_conv' split: if_splits)

lemma sink_calls_append: "sink_calls (xs @ ys) = sink_calls xs @ sink_calls ys"
  by (simp add: sink_calls_def)

lemma sink_calls_ListClusters: "sink_calls (map (\<lambda>q. ListClusters (f q)) qs) = []"
  by (induction qs) (simp_all add: sink_calls_def)

lemma sink_calls_LoggerWarn: "sink_calls (map LoggerWarn ws) = []"
  by (induction ws) (simp_all add: sink_calls_def)

lemma sink_calls_cycle:
  "sink_calls (LoggerInfo a # map (\<lambda>q. ListClusters (f q)) qs @ map LoggerWarn ws
     @ [LoggerInfo b, ApplyMutation m]) = [m]"
proof -
  have "sink_calls (LoggerInfo a # evs) = sink_calls evs" for evs
    by (simp add: sink_calls_def)
  moreover have "sink_calls [LoggerInfo b, ApplyMutation m] = [m]"
    by (simp add: sink_calls_def)
  ultimately show ?thesis
    by (simp add: sink_calls_append sink_calls_ListClusters sink_calls_LoggerWarn)
qed

lemma refresh_resolved_sink_calls:
  assumes "connection this = Some conn"
    and "\<forall>q \<in> set (gkeParents this).
           \<exists>r. listClusters (clusterManagerClient this) \<lparr>parent = q\<rparr> = Inr r"
  shows "sink_calls (fst (refresh K this)) = [full_mutation K this]"
proof -
  from refresh_resolved [OF assms, of K] obtain warnings line where
    "refresh K this =
       (LoggerInfo ''Discovering GKE clusters''
          # map (\<lambda>q. ListClusters \<lparr>parent = q\<rparr>) (gkeParents this)
          @ map LoggerWarn warnings
          @ [LoggerInfo line, ApplyMutation (full_mutation K this)],
        case applyMutation conn (full_mutation K this) of
          Some e \<Rightarrow> Inl e
        | None \<Rightarrow> Inr ())" by blast
  then show ?thesis
    by (simp only: fst_conv sink_calls_cycle)
qed

lemma refresh_rejected_sink_calls:
  assumes "connection this = Some conn"
    and "q \<in> set (gkeParents this)"
    and "listClusters (clusterManagerClient this) \<lparr>parent = q\<rparr> = Inl e"
  shows "sink_calls (fst (refresh K this)) = []"
proof -
  from getClusters_rejects [OF assms(2,3)] obtain e' where
    "snd (getClusters this) = Inl e'" by blast
  from refresh_rejected [OF assms(1) this, of K]
  show ?thesis
    by (simp add: sink_calls_append sink_calls_ListClusters) (simp add: sink_calls_def)
qed

lemma full_mutation_cong:
  assumes "gkeParents a = gkeParents b"
    and "\<forall>q \<in> set (gkeParents a).
           listClusters (clusterManagerClient a) \<lparr>parent = q\<rparr>
             = listClusters (clusterManagerClient b) \<lparr>parent = q\<rparr>"
  shows "full_mutation K a = full_mutation K b"
proof -
  have "parent_entities K a q = parent_entities K b q" if "q \<in> set (gkeParents a)" for q
    using that assms(2) by (simp add: parent_entities_def)
  then have "concat (map (parent_entities K a) (gkeParents a))
      = concat (map (parent_entities K b) (gkeParents a))"
    by (intro arg_cong [where f = concat] map_cong refl)
  then show ?thesis
    by (simp add: full_mutation_def assms(1) [symmetric])
qed

text \<open>
  Where no fetched record lacks only its location, the code submits what is expected.
\<close>

lemma mapped_entity_valid:
  assumes "falsy (location c) \<longrightarrow>
             falsy (ICluster.name c) \<or> falsy (selfLink c) \<or> falsy (endpoint c)"
  shows "mapped_entity K (Val c) = valid_mapped_entity K (Val c)"
proof (cases "valid_record c")
  case True
  then show ?thesis by (simp del: clusterToResource.simps)
next
  case False
  with assms have "falsy (ICluster.name c) \<or> falsy (selfLink c) \<or> falsy (endpoint c)"
    by (auto simp: valid_record_def)
  from clusterToResource_rejected [OF this, of K] False show ?thesis
    by (simp del: clusterToResource.simps)
qed

lemma refresh_submits_valid_mapped_entities:
  assumes "connection this = Some conn"
    and "\<forall>q \<in> set (gkeParents this).
           \<exists>r. listClusters (clusterManagerClient this) \<lparr>parent = q\<rparr> = Inr r"
    and "\<And>q r cs c. q \<in> set (gkeParents this) \<Longrightarrow>
           listClusters (clusterManagerClient this) \<lparr>parent = q\<rparr> = Inr r \<Longrightarrow>
           clusters r = Val cs \<Longrightarrow> Val c \<in> set cs \<Longrightarrow> falsy (location c) \<Longrightarrow>
           falsy (ICluster.name c) \<or> falsy (selfLink c) \<or> falsy (endpoint c)"
  shows "sink_calls (fst (refresh K this))
           = [\<lparr>EntityProviderMutation.type = ''full'',
               entities = valid_mapped_entities K this\<rparr>]"
proof -
  have entry: "mapped_entity K x = valid_mapped_entity K x"
    if "q \<in> set (gkeParents this)"
      and "listClusters (clusterManagerClient this) \<lparr>parent = q\<rparr> = Inr r"
      and "clusters r = Val cs" and "x \<in> set cs" for q r cs x
  proof (cases x)
    case (Val c)
    with assms(3) [OF that(1-3), of c] that(4) show ?thesis
      by (intro mapped_entity_valid [of c K, folded Val]) blast
  qed simp_all
  have "parent_entities K this q =
      (case listClusters (clusterManagerClient this) \<lparr>parent = q\<rparr> of
         Inl e \<Rightarrow> []
       | Inr response \<Rightarrow>
           (case clusters response of
              Val cs \<Rightarrow> concat (map (valid_mapped_entity K) cs)
            | Undefined \<Rightarrow> []
            | Null \<Rightarrow> []))" if q: "q \<in> set (gkeParents this)" for q
  proof (cases "listClusters (clusterManagerClient this) \<lparr>parent = q\<rparr>")
    case (Inl e)
    then show ?thesis by (simp add: parent_entities_def)
  next
    case (Inr r)
    show ?thesis
    proof (cases "clusters r")
      case (Val cs)
      have "concat (map (mapped_entity K) cs) = concat (map (valid_mapped_entity K) cs)"
        using entry [OF q Inr Val] by (intro arg_cong [where f = concat] map_cong refl)
      with Inr Val show ?thesis by (simp add: parent_entities_def)
    qed (simp_all add: parent_entities_def Inr)
  qed
  then have "concat (map (parent_entities K this) (gkeParents this)) =
      concat (map (\<lambda>q. case listClusters (clusterManagerClient this) \<lparr>parent = q\<rparr> of
         Inl e \<Rightarrow> []
       | Inr response \<Rightarrow>
           (case clusters response of
              Val cs \<Rightarrow> concat (map (valid_mapped_entity K) cs)
            | Undefined \<Rightarrow> []
            | Null \<Rightarrow> [])) (gkeParents this))"
    by (intro arg_cong [where f = concat] map_cong refl)
  then have "full_mutation K this
      = \<lparr>EntityProviderMutation.type = ''full'', entities = valid_mapped_entities K this\<rparr>"
    by (simp add: full_mutation_def valid_mapped_entities_def)
  with refresh_resolved_sink_calls [OF assms(1,2), of K] show ?thesis by simp
qed

lemma example_entities:
  "parent_entities example_keys example_provider ''p1'' = [entity_a]"
  "parent_entities example_keys example_provider ''p2'' = []"
proof -
  have a: "mapped_entity example_keys (Val cluster_a) = [entity_a]"
    by (simp add: cluster_a_def example_keys_def getProviderName_def io_return_def
        object_literal_def masterAuth_clusterCaCertificate_def Let_def entity_a_def)
  have b: "mapped_entity example_keys (Val cluster_no_endpoint) = []"
    by (simp add: cluster_no_endpoint_def io_bind_def io_return_def emit_def)
  show "parent_entities example_keys example_provider ''p1'' = [entity_a]"
    using a by (simp add: parent_entities_def example_provider_def example_client_def
        del: mapped_entity.simps(1))
  show "parent_entities example_keys example_provider ''p2'' = []"
    using b by (simp add: parent_entities_def example_provider_def example_client_def
        del: mapped_entity.simps(1))
qed

lemma example_sink_calls:
  "sink_calls (fst (refresh example_keys example_provider))
     = [\<lparr>EntityProviderMutation.type = ''full'', entities = [entity_a]\<rparr>]"
proof -
  have h1: "connection example_provider = Some example_connection"
    by (simp add: example_provider_def)
  have h2: "\<forall>q \<in> set (gkeParents example_provider).
      \<exists>r. listClusters (clusterManagerClient example_provider) \<lparr>parent = q\<rparr> = Inr r"
    by (simp add: example_provider_def example_client_def)
  have ps: "gkeParents example_provider = [''p1'', ''p2'']"
    by (simp add: example_provider_def)
  from refresh_resolved_sink_calls [OF h1 h2, of example_keys] show ?thesis
    by (simp add: full_mutation_def ps example_entities)
qed

text \<open>
  The error that a failed cycle logs depends on which list call rejects first in time,
  not on the order of the parents.
\<close>

lemma racing_provider_log:
  "refresh example_keys (racing_provider 1) =
     ([LoggerInfo ''Discovering GKE clusters'',
       ListClusters \<lparr>parent = ''p1''\<rparr>, ListClusters \<lparr>parent = ''p2''\<rparr>,
       LoggerError (Some ''error fetching GKE clusters'') (Error ''e1'')],
      Inr ())"
  "refresh example_keys (racing_provider 9) =
     ([LoggerInfo ''Discovering GKE clusters'',
       ListClusters \<lparr>parent = ''p1''\<rparr>, ListClusters \<lparr>parent = ''p2''\<rparr>,
       LoggerError (Some ''error fetching GKE clusters'') (Error ''e2'')],
      Inr ())"
  by (simp_all add: refresh_def racing_provider_def racing_client_def example_connection_def
      getClusters_def listParent_def Promise_all_def io_bind_def io_return_def emit_def
      try_catch_def)

section \<open>The claims\<close>

text \<open>
  C1. The claim: an entity is constructed if and only if the record's name, selfLink,
  location and endpoint are all present and non-empty. The code tests the derived string
  \<open>location\<close>, which starts with the provider's name and is never empty, instead of
  \<^verbatim>\<open>cluster.location\<close>: a record whose location is missing, with the three other fields
  present, yields an entity whose locationKey ends in \<^verbatim>\<open>undefined\<close>, and no warning.
\<close>

theorem C1_missing_location_entity_constructed:
  "clusterToResource example_keys (Val cluster_no_location)
     = ([], Inr (Some
         \<lparr>locationKey = ''gcp-gke:undefined'',
          entity =
            \<lparr>apiVersion = ''backstage.io/v1alpha1'',
             kind = ''Resource'',
             metadata =
               \<lparr>annotations =
                  [(''kubernetes.io/api-server'', ''https://1.2.3.4''),
                   (''kubernetes.io/api-server-certificate-authority'', []),
                   (''kubernetes.io/auth-provider'', ''google''),
                   (''backstage.io/managed-by-location'', ''gcp-gke:undefined''),
                   (''backstage.io/managed-by-origin-location'', ''gcp-gke:undefined'')],
                name = Val ''a'',
                namespace = ''default''\<rparr>,
             spec = \<lparr>EntitySpec.type = ''kubernetes-cluster'', owner = ''unknown''\<rparr>\<rparr>\<rparr>))"
  by (simp add: cluster_no_location_def example_keys_def getProviderName_def io_return_def
      object_literal_def masterAuth_clusterCaCertificate_def Let_def)

text \<open>
  C2. If the list call of some parent rejects while a connection is stored, then refresh
  calls the cloud API once per parent, logs one error (the reason of a rejected list
  call), makes no sink call and returns without throwing.
\<close>

theorem C2_rejected_list_call_aborts_cycle:
  assumes "connection this = Some conn"
    and "q \<in> set (gkeParents this)"
    and "listClusters (clusterManagerClient this) \<lparr>parent = q\<rparr> = Inl e"
  shows "\<exists>q' e'. q' \<in> set (gkeParents this)
           \<and> listClusters (clusterManagerClient this) \<lparr>parent = q'\<rparr> = Inl e'
           \<and> refresh K this =
               (LoggerInfo ''Discovering GKE clusters''
                  # map (\<lambda>p. ListClusters \<lparr>parent = p\<rparr>) (gkeParents this)
                  @ [LoggerError (Some ''error fetching GKE clusters'') e'],
                Inr ())
           \<and> sink_calls (fst (refresh K this)) = []"
proof -
  from getClusters_rejects [OF assms(2,3)] obtain q' e' where
    q': "q' \<in> set (gkeParents this)"
    and e': "listClusters (clusterManagerClient this) \<lparr>parent = q'\<rparr> = Inl e'"
    and rej: "snd (getClusters this) = Inl e'" by blast
  have run: "refresh K this =
      (LoggerInfo ''Discovering GKE clusters''
         # map (\<lambda>p. ListClusters \<lparr>parent = p\<rparr>) (gkeParents this)
         @ [LoggerError (Some ''error fetching GKE clusters'') e'],
       Inr ())"
    by (rule refresh_rejected [OF assms(1) rej])
  have "sink_calls (map (\<lambda>p. ListClusters \<lparr>parent = p\<rparr>) ps) = []" for ps
    by (induction ps) (simp_all add: sink_calls_def)
  then have "sink_calls (fst (refresh K this)) = []"
    by (simp add: run sink_calls_def)
  with q' e' run show ?thesis by blast
qed

theorem C2_rejected_list_call_aborts_cycle_witness:
  "connection failing_provider = Some example_connection
   \<and> ''p1'' \<in> set (gkeParents failing_provider)
   \<and> listClusters (clusterManagerClient failing_provider) \<lparr>parent = ''p1''\<rparr>
       = Inl (Error ''unavailable'')
   \<and> refresh example_keys failing_provider =
       ([LoggerInfo ''Discovering GKE clusters'',
         ListClusters \<lparr>parent = ''p1''\<rparr>, ListClusters \<lparr>parent = ''p2''\<rparr>,
         LoggerError (Some ''error fetching GKE clusters'') (Error ''unavailable'')],
        Inr ())
   \<and> sink_calls (fst (refresh example_keys failing_provider)) = []"
proof -
  have h1: "connection failing_provider = Some example_connection"
    by (simp add: failing_provider_def)
  have h2: "''p1'' \<in> set (gkeParents failing_provider)"
    by (simp add: failing_provider_def)
  have h3: "listClusters (clusterManagerClient failing_provider) \<lparr>parent = ''p1''\<rparr>
      = Inl (Error ''unavailable'')"
    by (simp add: failing_provider_def failing_client_def)
  from C2_rejected_list_call_aborts_cycle [OF h1 h2 h3, of example_keys]
  obtain q' e' where
    "q' \<in> set (gkeParents failing_provider)"
    "listClusters (clusterManagerClient failing_provider) \<lparr>parent = q'\<rparr> = Inl e'"
    "refresh example_keys failing_provider =
       (LoggerInfo ''Discovering GKE clusters''
          # map (\<lambda>p. ListClusters \<lparr>parent = p\<rparr>) (gkeParents failing_provider)
          @ [LoggerError (Some ''error fetching GKE clusters'') e'],
        Inr ())"
    "sink_calls (fst (refresh example_keys failing_provider)) = []" by blast
  moreover from this(1,2) have "e' = Error ''unavailable''"
    by (auto simp: failing_provider_def failing_client_def split: if_splits)
  ultimately show ?thesis using h1 h2 h3
    by (simp add: failing_provider_def)
qed

text \<open>
  C3. In a cycle with a stored connection whose fetched cluster records are \<open>xs\<close>, then
  a record \<open>c\<close> with name, selfLink, location and endpoint present and non-empty, then
  \<open>ys\<close>: the one mutation submitted holds the entities of \<open>xs\<close>, then exactly one
  entity \<open>e\<close> for \<open>c\<close>, then the entities of \<open>ys\<close>. The locationKey of \<open>e\<close> is
  the provider name \<^verbatim>\<open>gcp-gke\<close>, a colon and the location; its API-server annotation is
  \<^verbatim>\<open>https://\<close> followed by the endpoint.
\<close>

theorem C3_valid_record_yields_one_entity:
  assumes "connection this = Some conn"
    and "snd (getClusters this) = Inr (xs @ [Val c] @ ys)"
    and "ICluster.name c = Val n" and "n \<noteq> []"
    and "selfLink c = Val sl" and "sl \<noteq> []"
    and "location c = Val loc" and "loc \<noteq> []"
    and "endpoint c = Val ep" and "ep \<noteq> []"
    and "keys_distinct K"
  shows "\<exists>e. clusterToResource K (Val c) = ([], Inr (Some e))
           \<and> sink_calls (fst (refresh K this)) =
               [\<lparr>EntityProviderMutation.type = ''full'',
                 entities = concat (map (mapped_entity K) xs) @ [e]
                            @ concat (map (mapped_entity K) ys)\<rparr>]
           \<and> getProviderName = ''gcp-gke''
           \<and> locationKey e = ''gcp-gke:'' @ loc
           \<and> map_of (annotations (metadata (entity e))) (ANNOTATION_KUBERNETES_API_SERVER K)
               = Some (''https://'' @ ep)"
proof -
  from clusterToResource_accepted [of c K] assms(3-10) obtain e where
    e: "clusterToResource K (Val c) = ([], Inr (Some e))"
    and key: "locationKey e = getProviderName @ '':'' @ template (location c)"
    by auto
  from e have one: "mapped_entity K (Val c) = [e]"
    by (simp del: clusterToResource.simps)
  from e have "snd (clusterToResource K (Val c)) = Inr (Some e)" by simp
  from clusterToResource_annotations(1) [OF assms(11) this] assms(9)
  have url: "map_of (annotations (metadata (entity e))) (ANNOTATION_KUBERNETES_API_SERVER K)
      = Some (''https://'' @ ep)" by simp
  from refresh_fetched [OF assms(1,2), of K] obtain warnings line where
    "refresh K this =
       (LoggerInfo ''Discovering GKE clusters''
          # map (\<lambda>q. ListClusters \<lparr>parent = q\<rparr>) (gkeParents this)
          @ map LoggerWarn warnings
          @ [LoggerInfo line,
             ApplyMutation \<lparr>EntityProviderMutation.type = ''full'',
                            entities = concat (map (mapped_entity K) (xs @ [Val c] @ ys))\<rparr>],
        case applyMutation conn \<lparr>EntityProviderMutation.type = ''full'',
                            entities = concat (map (mapped_entity K) (xs @ [Val c] @ ys))\<rparr> of
          Some e \<Rightarrow> Inl e
        | None \<Rightarrow> Inr ())" by blast
  then have "sink_calls (fst (refresh K this)) =
      [\<lparr>EntityProviderMutation.type = ''full'',
        entities = concat (map (mapped_entity K) (xs @ [Val c] @ ys))\<rparr>]"
    by (simp only: fst_conv sink_calls_cycle)
  with one have "sink_calls (fst (refresh K this)) =
      [\<lparr>EntityProviderMutation.type = ''full'',
        entities = concat (map (mapped_entity K) xs) @ [e]
                   @ concat (map (mapped_entity K) ys)\<rparr>]"
    by (simp del: mapped_entity.simps)
  with e key url assms(7) show ?thesis
    by (simp add: getProviderName_def del: clusterToResource.simps)
qed

theorem C3_valid_record_yields_one_entity_witness:
  "connection example_provider = Some example_connection
   \<and> snd (getClusters example_provider) = Inr ([] @ [Val cluster_a] @ [Val cluster_no_endpoint])
   \<and> keys_distinct example_keys
   \<and> clusterToResource example_keys (Val cluster_a) = ([], Inr (Some entity_a))
   \<and> sink_calls (fst (refresh example_keys example_provider)) =
       [\<lparr>EntityProviderMutation.type = ''full'', entities = [entity_a]\<rparr>]
   \<and> locationKey entity_a = ''gcp-gke:us''
   \<and> map_of (annotations (metadata (entity entity_a))) ''kubernetes.io/api-server''
       = Some ''https://1.2.3.4''"
proof -
  have h1: "connection example_provider = Some example_connection"
    by (simp add: example_provider_def)
  have h2: "snd (getClusters example_provider)
      = Inr ([] @ [Val cluster_a] @ [Val cluster_no_endpoint])"
    by (simp add: example_provider_def example_client_def getClusters_def listParent_def
        Promise_all_def io_bind_def io_return_def filterOutUndefinedCluster_def)
  have h3: "keys_distinct example_keys"
    by (simp add: keys_distinct_def example_keys_def)
  have a: "clusterToResource example_keys (Val cluster_a) = ([], Inr (Some entity_a))"
    by (simp add: cluster_a_def example_keys_def getProviderName_def io_return_def
        object_literal_def masterAuth_clusterCaCertificate_def Let_def entity_a_def)
  have b: "mapped_entity example_keys (Val cluster_no_endpoint) = []"
    by (simp add: cluster_no_endpoint_def io_bind_def io_return_def emit_def)
  from C3_valid_record_yields_one_entity [OF h1 h2, of "''a''" "''s''" "''us''" "''1.2.3.4''"
      example_keys] h3
  obtain e where "clusterToResource example_keys (Val cluster_a) = ([], Inr (Some e))"
    and "sink_calls (fst (refresh example_keys example_provider)) =
       [\<lparr>EntityProviderMutation.type = ''full'',
         entities = concat (map (mapped_entity example_keys) []) @ [e]
                    @ concat (map (mapped_entity example_keys) [Val cluster_no_endpoint])\<rparr>]"
    by (auto simp: cluster_a_def)
  with a b have "sink_calls (fst (refresh example_keys example_provider)) =
       [\<lparr>EntityProviderMutation.type = ''full'', entities = [entity_a]\<rparr>]"
    by (simp del: clusterToResource.simps mapped_entity.simps)
  with h1 h2 h3 a show ?thesis
    by (simp add: entity_a_def del: clusterToResource.simps)
qed

text \<open>
  C4. The claim: if every parent's list call succeeds, refresh makes exactly one sink
  call, of type \<^verbatim>\<open>full\<close>, whose entities are the union over all parents of the entities
  mapped from the valid records. With one parent whose response holds one record that has
  a name, a selfLink and an endpoint but no location, the expected union is empty, while
  the code submits one entity, with the locationKey \<^verbatim>\<open>gcp-gke:undefined\<close>.
\<close>

theorem C4_missing_location_entity_submitted:
  "connection no_location_provider = Some example_connection
   \<and> gkeParents no_location_provider = [''p1'']
   \<and> listClusters (clusterManagerClient no_location_provider) \<lparr>parent = ''p1''\<rparr>
       = Inr \<lparr>clusters = Val [Val cluster_no_location]\<rparr>
   \<and> valid_record cluster_no_location = False
   \<and> valid_mapped_entities example_keys no_location_provider = []
   \<and> sink_calls (fst (refresh example_keys no_location_provider))
       = [\<lparr>EntityProviderMutation.type = ''full'', entities = [entity_no_location]\<rparr>]"
proof -
  have h1: "connection no_location_provider = Some example_connection"
    by (simp add: no_location_provider_def)
  have ps: "gkeParents no_location_provider = [''p1'']"
    by (simp add: no_location_provider_def)
  have h2: "\<forall>q \<in> set (gkeParents no_location_provider).
      \<exists>r. listClusters (clusterManagerClient no_location_provider) \<lparr>parent = q\<rparr> = Inr r"
    by (simp add: no_location_provider_def no_location_client_def)
  have r: "listClusters (clusterManagerClient no_location_provider) \<lparr>parent = ''p1''\<rparr>
      = Inr \<lparr>clusters = Val [Val cluster_no_location]\<rparr>"
    by (simp add: no_location_provider_def no_location_client_def)
  have invalid: "valid_record cluster_no_location = False"
    by (simp add: valid_record_def cluster_no_location_def)
  have m: "mapped_entity example_keys (Val cluster_no_location) = [entity_no_location]"
    by (simp add: cluster_no_location_def example_keys_def getProviderName_def io_return_def
        object_literal_def masterAuth_clusterCaCertificate_def Let_def entity_no_location_def)
  have expected: "valid_mapped_entities example_keys no_location_provider = []"
    using invalid by (simp add: valid_mapped_entities_def ps r del: clusterToResource.simps)
  have "parent_entities example_keys no_location_provider ''p1'' = [entity_no_location]"
    using m by (simp add: parent_entities_def r del: mapped_entity.simps(1))
  with refresh_resolved_sink_calls [OF h1 h2, of example_keys]
  have "sink_calls (fst (refresh example_keys no_location_provider))
      = [\<lparr>EntityProviderMutation.type = ''full'', entities = [entity_no_location]\<rparr>]"
    by (simp add: full_mutation_def ps)
  with h1 ps r invalid expected show ?thesis by simp
qed

text \<open>
  C5. Take two cycles of refresh over the same parents, each with some connection stored,
  in which every list call gets the same response or the same rejection. The instants at
  which the list calls settle, the connection and the answers of the sink may differ from
  one cycle to the other. Both cycles make the same sink calls, with the same entities;
  if all list calls succeed this is one call of type \<^verbatim>\<open>full\<close>, and otherwise none.
\<close>

theorem C5_same_upstream_data_same_submission:
  assumes "gkeParents a = gkeParents b"
    and "\<forall>q \<in> set (gkeParents a).
           listClusters (clusterManagerClient a) \<lparr>parent = q\<rparr>
             = listClusters (clusterManagerClient b) \<lparr>parent = q\<rparr>"
    and "connection a = Some ca" and "connection b = Some cb"
  shows "sink_calls (fst (refresh K a)) = sink_calls (fst (refresh K b))
         \<and> (if \<forall>q \<in> set (gkeParents a).
                  \<exists>r. listClusters (clusterManagerClient a) \<lparr>parent = q\<rparr> = Inr r
            then \<exists>es. sink_calls (fst (refresh K a))
                        = [\<lparr>EntityProviderMutation.type = ''full'', entities = es\<rparr>]
            else sink_calls (fst (refresh K a)) = [])"
proof (cases "\<forall>q \<in> set (gkeParents a).
    \<exists>r. listClusters (clusterManagerClient a) \<lparr>parent = q\<rparr> = Inr r")
  case True
  with assms(1,2) have "\<forall>q \<in> set (gkeParents b).
      \<exists>r. listClusters (clusterManagerClient b) \<lparr>parent = q\<rparr> = Inr r"
    by auto
  from refresh_resolved_sink_calls [OF assms(4) this, of K]
    refresh_resolved_sink_calls [OF assms(3) True, of K]
    full_mutation_cong [OF assms(1,2), of K] True
  show ?thesis by (auto simp: full_mutation_def)
next
  case False
  then obtain q where q: "q \<in> set (gkeParents a)"
    and "\<nexists>r. listClusters (clusterManagerClient a) \<lparr>parent = q\<rparr> = Inr r" by blast
  then obtain e where e: "listClusters (clusterManagerClient a) \<lparr>parent = q\<rparr> = Inl e"
    by (cases "listClusters (clusterManagerClient a) \<lparr>parent = q\<rparr>") auto
  from q e assms(1,2)
  have "q \<in> set (gkeParents b)"
    and "listClusters (clusterManagerClient b) \<lparr>parent = q\<rparr> = Inl e" by auto
  from refresh_rejected_sink_calls [OF assms(4) this, of K]
    refresh_rejected_sink_calls [OF assms(3) q e, of K] False
  show ?thesis by simp
qed

theorem C5_same_upstream_data_same_submission_witness:
  "gkeParents example_provider
     = gkeParents (example_provider\<lparr>connection := Some rejecting_connection,
         clusterManagerClient := example_client\<lparr>settled := (\<lambda>request. 0)\<rparr>\<rparr>)
   \<and> listClusters (clusterManagerClient example_provider)
       = listClusters (clusterManagerClient
           (example_provider\<lparr>connection := Some rejecting_connection,
              clusterManagerClient := example_client\<lparr>settled := (\<lambda>request. 0)\<rparr>\<rparr>))
   \<and> connection example_provider = Some example_connection
   \<and> connection (example_provider\<lparr>connection := Some rejecting_connection,
         clusterManagerClient := example_client\<lparr>settled := (\<lambda>request. 0)\<rparr>\<rparr>)
       = Some rejecting_connection
   \<and> sink_calls (fst (refresh example_keys
         (example_provider\<lparr>connection := Some rejecting_connection,
            clusterManagerClient := example_client\<lparr>settled := (\<lambda>request. 0)\<rparr>\<rparr>)))
       = [\<lparr>EntityProviderMutation.type = ''full'', entities = [entity_a]\<rparr>]"
proof -
  let ?b = "example_provider\<lparr>connection := Some rejecting_connection,
    clusterManagerClient := example_client\<lparr>settled := (\<lambda>request. 0)\<rparr>\<rparr>"
  have h1: "gkeParents example_provider = gkeParents ?b" by simp
  have same: "listClusters (clusterManagerClient example_provider)
      = listClusters (clusterManagerClient ?b)"
    by (simp add: example_provider_def)
  then have h2: "\<forall>q \<in> set (gkeParents example_provider).
      listClusters (clusterManagerClient example_provider) \<lparr>parent = q\<rparr>
        = listClusters (clusterManagerClient ?b) \<lparr>parent = q\<rparr>" by simp
  have h3: "connection example_provider = Some example_connection"
    by (simp add: example_provider_def)
  have h4: "connection ?b = Some rejecting_connection" by simp
  from C5_same_upstream_data_same_submission [OF h1 h2 h3 h4, of example_keys]
  have "sink_calls (fst (refresh example_keys example_provider))
      = sink_calls (fst (refresh example_keys ?b))" by (rule conjunct1)
  then have "sink_calls (fst (refresh example_keys ?b))
      = [\<lparr>EntityProviderMutation.type = ''full'', entities = [entity_a]\<rparr>]"
    by (simp only: example_sink_calls)
  with h1 same h3 h4 show ?thesis by simp
qed

text \<open>
  C6. While no connection is stored, refresh throws the error \<^verbatim>\<open>Not initialized\<close> and
  causes no event: no sink call and no cloud API call.
\<close>

theorem C6_refresh_before_connect_throws:
  assumes "connection this = None"
  shows "refresh K this = ([], Inl (Error ''Not initialized''))
         \<and> sink_calls (fst (refresh K this)) = []
         \<and> api_calls (fst (refresh K this)) = []"
  using assms by (simp add: refresh_not_connected sink_calls_def api_calls_def)

theorem C6_refresh_before_connect_throws_witness:
  "connection (constructor [''p1'', ''p2''] example_client) = None
   \<and> refresh example_keys (constructor [''p1'', ''p2''] example_client)
       = ([], Inl (Error ''Not initialized''))
   \<and> connection (fst (connect example_keys \<lparr>run = task_id\<rparr>
         (constructor [''p1'', ''p2''] example_client) example_connection))
       = Some example_connection"
proof -
  have h: "connection (constructor [''p1'', ''p2''] example_client) = None"
    by (simp add: constructor_def)
  from C6_refresh_before_connect_throws [OF h, of example_keys] h show ?thesis
    by (simp add: connect_def)
qed

text \<open>
  C7. The function handed to the task runner never throws. When refresh throws, it logs
  the thrown value after the events of refresh; when refresh returns, it adds nothing.
  The task is registered under the id \<^verbatim>\<open>gcp-gke:refresh\<close>, and a schedule that would
  end at the first escaping exception runs it at every tick.
\<close>

theorem C7_scheduled_fn_catches_and_logs:
  "snd (scheduled_fn K this) = Inr ()
   \<and> (\<forall>e. snd (refresh K this) = Inl e \<longrightarrow>
         fst (scheduled_fn K this) = fst (refresh K this) @ [LoggerError None e])
   \<and> (snd (refresh K this) = Inr () \<longrightarrow> fst (scheduled_fn K this) = fst (refresh K this))
   \<and> createScheduleFn K taskRunner ()
       = run taskRunner \<lparr>task_id = ''gcp-gke:refresh'', fn = scheduled_fn K\<rparr>
   \<and> run_recurring (scheduled_fn K) states = map (scheduled_fn K) states"
proof -
  have never: "snd (scheduled_fn K s) = Inr ()" for s
    by (simp add: scheduled_fn_def try_catch_def emit_def split: sum.splits)
  have "run_recurring (scheduled_fn K) ss = map (scheduled_fn K) ss" for ss
    by (induction ss) (simp_all add: never)
  moreover have "createScheduleFn K taskRunner ()
      = run taskRunner \<lparr>task_id = ''gcp-gke:refresh'', fn = scheduled_fn K\<rparr>"
    by (simp add: createScheduleFn_def getProviderName_def)
  moreover have "\<forall>e. snd (refresh K this) = Inl e \<longrightarrow>
      fst (scheduled_fn K this) = fst (refresh K this) @ [LoggerError None e]"
    by (simp add: scheduled_fn_def try_catch_def emit_def)
  moreover have "snd (refresh K this) = Inr () \<longrightarrow>
      fst (scheduled_fn K this) = fst (refresh K this)"
    by (simp add: scheduled_fn_def try_catch_def)
  ultimately show ?thesis using never by blast
qed

theorem C7_scheduled_fn_catches_and_logs_witness:
  "snd (refresh example_keys (constructor [''p1''] example_client))
     = Inl (Error ''Not initialized'')
   \<and> scheduled_fn example_keys (constructor [''p1''] example_client)
       = ([LoggerError None (Error ''Not initialized'')], Inr ())
   \<and> createScheduleFn example_keys \<lparr>run = task_id\<rparr> () = ''gcp-gke:refresh''
   \<and> length (run_recurring (scheduled_fn example_keys)
               [constructor [''p1''] example_client, example_provider]) = 2"
proof -
  let ?s = "constructor [''p1''] example_client"
  have r: "refresh example_keys ?s = ([], Inl (Error ''Not initialized''))"
    by (simp add: refresh_not_connected constructor_def)
  from C7_scheduled_fn_catches_and_logs
    [of example_keys ?s "\<lparr>run = task_id\<rparr>" "[?s, example_provider]"]
  have "snd (scheduled_fn example_keys ?s) = Inr ()"
    and "fst (scheduled_fn example_keys ?s) = [LoggerError None (Error ''Not initialized'')]"
    and "createScheduleFn example_keys \<lparr>run = task_id\<rparr> () = ''gcp-gke:refresh''"
    and "run_recurring (scheduled_fn example_keys) [?s, example_provider]
          = map (scheduled_fn example_keys) [?s, example_provider]"
    by (simp_all add: r del: run_recurring.simps)
  then show ?thesis by (simp add: r prod_eq_iff del: run_recurring.simps)
qed

text \<open>
  C8. The list that \<open>getClusters\<close> resolves to is the concatenation, over the parents, of
  the non-null entries of each response; it holds no null and no undefined entry, so
  mapping \<open>clusterToResource\<close> over it never reads a property of null or undefined.
\<close>

theorem C8_null_entries_dropped_before_mapping:
  assumes "snd (getClusters this) = Inr cs"
  shows "cs = concat (map (parent_clusters this) (gkeParents this))
         \<and> (\<forall>c \<in> set cs. c \<noteq> Undefined \<and> c \<noteq> Null)
         \<and> (\<forall>c \<in> set cs. snd (clusterToResource K c) \<noteq> Inl TypeError)
         \<and> (\<exists>rs. snd (array_map (clusterToResource K) cs) = Inr rs)"
proof -
  have kept: "\<forall>c \<in> set cs. filterOutUndefinedCluster c"
    using getClusters_kept [OF assms] by blast
  then have "\<forall>c \<in> set cs. c \<noteq> Undefined \<and> c \<noteq> Null"
    by (simp add: filterOutUndefinedCluster_def)
  moreover have "\<forall>c \<in> set cs. snd (clusterToResource K c) \<noteq> Inl TypeError"
  proof
    fix c assume "c \<in> set cs"
    with kept have "filterOutUndefinedCluster c" by blast
    from clusterToResource_kept [OF this, of K]
    show "snd (clusterToResource K c) \<noteq> Inl TypeError" by auto
  qed
  moreover have "\<exists>rs. snd (array_map (clusterToResource K) cs) = Inr rs"
    using array_map_clusterToResource [OF kept, of K] by simp
  moreover have "cs = concat (map (parent_clusters this) (gkeParents this))"
    using getClusters_resolved [OF assms] by blast
  ultimately show ?thesis by blast
qed

theorem C8_null_entries_dropped_before_mapping_witness:
  "listClusters (clusterManagerClient example_provider) \<lparr>parent = ''p1''\<rparr>
     = Inr \<lparr>clusters = Val [Val cluster_a, Null]\<rparr>
   \<and> snd (getClusters example_provider) = Inr [Val cluster_a, Val cluster_no_endpoint]
   \<and> (\<exists>rs. snd (array_map (clusterToResource example_keys)
                [Val cluster_a, Val cluster_no_endpoint]) = Inr rs)"
proof -
  have h: "snd (getClusters example_provider) = Inr [Val cluster_a, Val cluster_no_endpoint]"
    by (simp add: example_provider_def example_client_def getClusters_def listParent_def
        Promise_all_def io_bind_def io_return_def filterOutUndefinedCluster_def)
  have p: "listClusters (clusterManagerClient example_provider) \<lparr>parent = ''p1''\<rparr>
      = Inr \<lparr>clusters = Val [Val cluster_a, Null]\<rparr>"
    by (simp add: example_provider_def example_client_def)
  from C8_null_entries_dropped_before_mapping [OF h, of example_keys] h p
  show ?thesis by blast
qed

text \<open>
  C9. Every entity that \<open>clusterToResource\<close> produces maps the auth-provider key to
  \<^verbatim>\<open>google\<close>, both \<^verbatim>\<open>backstage.io/managed-by-location\<close> and
  \<^verbatim>\<open>backstage.io/managed-by-origin-location\<close> to its locationKey, and the API-server CA
  key to the cluster's CA certificate if masterAuth and the certificate are present, and
  to the empty string otherwise.
\<close>

theorem C9_fixed_annotations:
  assumes "keys_distinct K"
    and "snd (clusterToResource K (Val c)) = Inr (Some e)"
  shows "map_of (annotations (metadata (entity e))) (ANNOTATION_KUBERNETES_AUTH_PROVIDER K)
           = Some ''google''
         \<and> map_of (annotations (metadata (entity e))) ''backstage.io/managed-by-location''
             = Some (locationKey e)
         \<and> map_of (annotations (metadata (entity e))) ''backstage.io/managed-by-origin-location''
             = Some (locationKey e)
         \<and> map_of (annotations (metadata (entity e))) (ANNOTATION_KUBERNETES_API_SERVER_CA K)
             = Some (case masterAuth c of
                       Val m \<Rightarrow> (case clusterCaCertificate m of
                                   Val certificate \<Rightarrow> certificate
                                 | Undefined \<Rightarrow> []
                                 | Null \<Rightarrow> [])
                     | Undefined \<Rightarrow> []
                     | Null \<Rightarrow> [])"
proof -
  have "or_else (masterAuth_clusterCaCertificate c) []
      = (case masterAuth c of
           Val m \<Rightarrow> (case clusterCaCertificate m of
                       Val certificate \<Rightarrow> certificate
                     | Undefined \<Rightarrow> []
                     | Null \<Rightarrow> [])
         | Undefined \<Rightarrow> []
         | Null \<Rightarrow> [])"
    by (simp add: masterAuth_clusterCaCertificate_def split: nullable.splits)
  with clusterToResource_annotations(2-5) [OF assms] show ?thesis by simp
qed

theorem C9_fixed_annotations_witness:
  "keys_distinct example_keys
   \<and> snd (clusterToResource example_keys
        (Val (cluster_a\<lparr>masterAuth := Val \<lparr>clusterCaCertificate = Val ''CERT''\<rparr>\<rparr>)))
       = Inr (Some (entity_a\<lparr>entity := (entity entity_a)\<lparr>metadata :=
           (metadata (entity entity_a))\<lparr>annotations :=
              [(''kubernetes.io/api-server'', ''https://1.2.3.4''),
               (''kubernetes.io/api-server-certificate-authority'', ''CERT''),
               (''kubernetes.io/auth-provider'', ''google''),
               (''backstage.io/managed-by-location'', ''gcp-gke:us''),
               (''backstage.io/managed-by-origin-location'', ''gcp-gke:us'')]\<rparr>\<rparr>\<rparr>))
   \<and> map_of (annotations (metadata (entity entity_a))) ''kubernetes.io/auth-provider''
       = Some ''google''
   \<and> map_of (annotations (metadata (entity entity_a)))
        ''kubernetes.io/api-server-certificate-authority'' = Some []"
proof -
  have h1: "keys_distinct example_keys"
    by (simp add: keys_distinct_def example_keys_def)
  have h2: "snd (clusterToResource example_keys (Val cluster_a)) = Inr (Some entity_a)"
    by (simp add: cluster_a_def example_keys_def getProviderName_def io_return_def
        object_literal_def masterAuth_clusterCaCertificate_def Let_def entity_a_def)
  have h3: "snd (clusterToResource example_keys
        (Val (cluster_a\<lparr>masterAuth := Val \<lparr>clusterCaCertificate = Val ''CERT''\<rparr>\<rparr>)))
       = Inr (Some (entity_a\<lparr>entity := (entity entity_a)\<lparr>metadata :=
           (metadata (entity entity_a))\<lparr>annotations :=
              [(''kubernetes.io/api-server'', ''https://1.2.3.4''),
               (''kubernetes.io/api-server-certificate-authority'', ''CERT''),
               (''kubernetes.io/auth-provider'', ''google''),
               (''backstage.io/managed-by-location'', ''gcp-gke:us''),
               (''backstage.io/managed-by-origin-location'', ''gcp-gke:us'')]\<rparr>\<rparr>\<rparr>))"
    by (simp add: cluster_a_def example_keys_def getProviderName_def io_return_def
        object_literal_def masterAuth_clusterCaCertificate_def Let_def entity_a_def)
  from C9_fixed_annotations [OF h1 h2] h1 h3 show ?thesis
    by (simp add: example_keys_def cluster_a_def del: clusterToResource.simps)
qed

text \<open>
  C10. A successful list response whose \<open>clusters\<close> field is null or undefined makes its
  parent resolve to the empty list and contribute no entity; \<open>getClusters\<close> and refresh
  behave exactly as if the response had held an empty list.
\<close>

theorem C10_null_clusters_field_is_empty_list:
  assumes "listClusters (clusterManagerClient this) \<lparr>parent = q\<rparr> = Inr r"
    and "clusters r = Null \<or> clusters r = Undefined"
  shows "listParent this q = ([ListClusters \<lparr>parent = q\<rparr>], Inr [])
         \<and> parent_entities K this q = []
         \<and> getClusters this =
             getClusters (this\<lparr>clusterManagerClient := (clusterManagerClient this)\<lparr>listClusters :=
               (listClusters (clusterManagerClient this))
                 (\<lparr>parent = q\<rparr> := Inr \<lparr>clusters = Val []\<rparr>)\<rparr>\<rparr>)
         \<and> refresh K this =
             refresh K (this\<lparr>clusterManagerClient := (clusterManagerClient this)\<lparr>listClusters :=
               (listClusters (clusterManagerClient this))
                 (\<lparr>parent = q\<rparr> := Inr \<lparr>clusters = Val []\<rparr>)\<rparr>\<rparr>)"
proof -
  let ?that = "this\<lparr>clusterManagerClient := (clusterManagerClient this)\<lparr>listClusters :=
               (listClusters (clusterManagerClient this))
                 (\<lparr>parent = q\<rparr> := Inr \<lparr>clusters = Val []\<rparr>)\<rparr>\<rparr>"
  have one: "listParent this q = ([ListClusters \<lparr>parent = q\<rparr>], Inr [])"
    using assms by (auto simp: listParent_def io_bind_def io_return_def)
  have none: "parent_entities K this q = []"
    using assms by (auto simp: parent_entities_def)
  have "listParent ?that p = listParent this p" for p
  proof (cases "p = q")
    case True
    have "listParent ?that q = ([ListClusters \<lparr>parent = q\<rparr>], Inr [])"
      by (simp add: listParent_def io_bind_def io_return_def)
    with one True show ?thesis by simp
  next
    case False
    then show ?thesis by (simp add: listParent_def)
  qed
  then have "listParent ?that = listParent this"
    by (rule ext)
  then have same: "getClusters this = getClusters ?that"
    by (simp add: getClusters_def)
  have "refresh K this = refresh K ?that"
    unfolding refresh_def same [symmetric] by simp
  with one none same show ?thesis by blast
qed

theorem C10_null_clusters_field_is_empty_list_witness:
  "listClusters (clusterManagerClient null_clusters_provider) \<lparr>parent = ''p2''\<rparr>
     = Inr \<lparr>clusters = Null\<rparr>
   \<and> listParent null_clusters_provider ''p2'' = ([ListClusters \<lparr>parent = ''p2''\<rparr>], Inr [])
   \<and> snd (getClusters null_clusters_provider) = Inr [Val cluster_a]
   \<and> parent_entities example_keys null_clusters_provider ''p2'' = []"
proof -
  have h: "listClusters (clusterManagerClient null_clusters_provider) \<lparr>parent = ''p2''\<rparr>
      = Inr \<lparr>clusters = Null\<rparr>"
    by (simp add: null_clusters_provider_def null_clusters_client_def)
  have g: "snd (getClusters null_clusters_provider) = Inr [Val cluster_a]"
    by (simp add: null_clusters_provider_def null_clusters_client_def getClusters_def
        listParent_def Promise_all_def io_bind_def io_return_def filterOutUndefinedCluster_def)
  from C10_null_clusters_field_is_empty_list [OF h, of example_keys] h g
  show ?thesis by simp
qed

end
